theory Spec2Isabelle
  imports Main
begin

section \<open>The tool box of the drawing board (DrawToolsBox.tsx)\<close>

text \<open>
  The component keeps two pieces of state of its own (\<open>isOpen\<close>, \<open>lastKeyTime\<close>) and
  receives the current tool (\<open>tool: string | null\<close>) and the callback \<open>setTool\<close> from
  the page that owns it. Every handler runs to completion before the next event is
  delivered, and the listeners are re-registered after every render, so a handler always
  reads the values left by the previous event: the handlers are modelled as functions
  from the state before the event to the state after it.
  \<open>event.preventDefault()\<close> acts on the event object only and is left out.
\<close>

definition DEBOUNCE_DELAY :: int where
  "DEBOUNCE_DELAY = 150"

record widget =
  tool :: "string option"
  isOpen :: bool
  lastKeyTime :: int
  setToolCalls :: "string list"

text \<open>
  The state after mounting: \<open>useState(false)\<close>, \<open>useState(0)\<close>, the tool as the owner
  passes it, and no call of the callback so far.
\<close>

definition mount :: "string option \<Rightarrow> widget" where
  "mount t = \<lparr>tool = t, isOpen = False, lastKeyTime = 0, setToolCalls = []\<rparr>"

text \<open>
  Modelled from the spec: the tool-update callback \<open>setTool\<close> of the owning page, whose
  body is not part of the component's file. The owner holds the one current tool and the
  callback stores its argument there; the component reads it back as the \<open>tool\<close> prop.
  The field \<open>setToolCalls\<close> records every invocation, the latest one last.
\<close>

definition setTool :: "string \<Rightarrow> widget \<Rightarrow> widget" where
  "setTool v w = w\<lparr>tool := Some v, setToolCalls := setToolCalls w @ [v]\<rparr>"

definition setLastKeyTime :: "int \<Rightarrow> widget \<Rightarrow> widget" where
  "setLastKeyTime t w = w\<lparr>lastKeyTime := t\<rparr>"

definition toggleToolBox :: "widget \<Rightarrow> widget" where
  "toggleToolBox w = w\<lparr>isOpen := \<not> isOpen w\<rparr>"

definition handleToolChange :: "string \<Rightarrow> widget \<Rightarrow> widget" where
  "handleToolChange newTool w =
     (if Some newTool = tool w then setTool ''default'' w else setTool newTool w)"

text \<open>
  \<open>String.prototype.toLowerCase\<close> on the letters A to Z; every other character of the
  8-bit alphabet of \<^typ>\<open>char\<close> is kept, and none of them is a case label of the switch.
\<close>

definition toLowerCase_char :: "char \<Rightarrow> char" where
  "toLowerCase_char c =
     (case map_of (zip ''ABCDEFGHIJKLMNOPQRSTUVWXYZ'' ''abcdefghijklmnopqrstuvwxyz'') c of
        Some l \<Rightarrow> l
      | None \<Rightarrow> c)"

definition toLowerCase :: "string \<Rightarrow> string" where
  "toLowerCase s = map toLowerCase_char s"

text \<open>
  The key-down listener. Its arguments are the prop \<open>isKeyboardShortcutsDisable\<close>,
  \<open>event.key\<close> and the value \<open>Date.now()\<close> returns.
\<close>

definition handleKeyDown :: "bool \<Rightarrow> string \<Rightarrow> int \<Rightarrow> widget \<Rightarrow> widget" where
  "handleKeyDown isKeyboardShortcutsDisable key currentTime w =
     (if isKeyboardShortcutsDisable then w
      else if currentTime - lastKeyTime w < DEBOUNCE_DELAY then w
      else
        let w1 = setLastKeyTime currentTime w in
        if key = '' '' \<or> key = ''Space'' then setTool ''hand'' w1
        else
          let k = toLowerCase key in
          if k = ''r'' then handleToolChange ''default'' w1
          else if k = ''p'' then handleToolChange ''pen'' w1
          else if k = ''h'' then handleToolChange ''hand'' w1
          else if k = ''e'' then handleToolChange ''eraser'' w1
          else if k = ''a'' then handleToolChange ''text'' w1
          else if k = ''l'' then handleToolChange ''line'' w1
          else if k = ''s'' then handleToolChange ''square'' w1
          else if k = ''i'' then handleToolChange ''circle'' w1
          else if k = ''t'' then toggleToolBox w1
          else w1)"

text \<open>The key-up listener; it reads neither the clock nor the prop that disables shortcuts.\<close>

definition handleKeyUp :: "string \<Rightarrow> widget \<Rightarrow> widget" where
  "handleKeyUp key w =
     (if key = '' '' \<or> key = ''Space'' then setTool '''' w else w)"

text \<open>The click handler of the tool buttons.\<close>

definition handleClick :: "string \<Rightarrow> widget \<Rightarrow> widget" where
  "handleClick toolName w = handleToolChange toolName w"

text \<open>
  A tool button is highlighted when the \<open>tool\<close> prop equals its name
  (\<open>tool === 'hand' ? 'bg-blue-500' : ''\<close>): the displayed tool is the \<open>tool\<close> prop.
\<close>

definition highlighted :: "string \<Rightarrow> widget \<Rightarrow> bool" where
  "highlighted name w = (tool w = Some name)"

text \<open>
  The events the component reacts to: the two window listeners, a click on a tool
  button, and a click on the disclosure button (\<open>onClick={toggleToolBox}\<close>). The first
  argument of \<open>dispatch\<close> is the prop \<open>isKeyboardShortcutsDisable\<close> at the time of the
  event.
\<close>

datatype event =
  KeyDown string int
  | KeyUp string
  | ClickTool string
  | ClickToggle

fun dispatch :: "bool \<Rightarrow> event \<Rightarrow> widget \<Rightarrow> widget" where
  "dispatch d (KeyDown key now) w = handleKeyDown d key now w"
| "dispatch d (KeyUp key) w = handleKeyUp key w"
| "dispatch d (ClickTool name) w = handleClick name w"
| "dispatch d ClickToggle w = toggleToolBox w"

text \<open>A run of key-down events with shortcuts enabled, each with its key and its time.\<close>

fun keyDowns :: "(string \<times> int) list \<Rightarrow> widget \<Rightarrow> widget" where
  "keyDowns [] w = w"
| "keyDowns ((key, now) # evs) w = keyDowns evs (handleKeyDown False key now w)"

text \<open>The keys of the binding table: the space key and the case labels of the switch.\<close>

definition isBoundKey :: "string \<Rightarrow> bool" where
  "isBoundKey key =
     (key = '' '' \<or> key = ''Space''
      \<or> toLowerCase key \<in> {''r'', ''p'', ''h'', ''e'', ''a'', ''l'', ''s'', ''i'', ''t''})"

text \<open>
  The debounce test of the key-down listener, negated: the key-down is not dropped and
  goes on to the clock write and the key lookup.
\<close>

definition passesGate :: "int \<Rightarrow> widget \<Rightarrow> bool" where
  "passesGate currentTime w = (\<not> (currentTime - lastKeyTime w < DEBOUNCE_DELAY))"

text \<open>The times of the key-downs of a run that passed the debounce test, oldest first.\<close>

fun gateTimes :: "(string \<times> int) list \<Rightarrow> widget \<Rightarrow> int list" where
  "gateTimes [] w = []"
| "gateTimes ((key, now) # evs) w =
     (if passesGate now w then [now] else [])
       @ gateTimes evs (handleKeyDown False key now w)"

text \<open>
  An intent was carried out between the state \<open>w\<close> before an event and the state \<open>w'\<close>
  after it: exactly one more call of the tool-change callback with the panel flag kept,
  or the panel flag flipped with no call of the callback. A change of the debounce clock
  alone is no intent.
\<close>

definition intentIssued :: "widget \<Rightarrow> widget \<Rightarrow> bool" where
  "intentIssued w w' =
     ((length (setToolCalls w') = Suc (length (setToolCalls w))
         \<and> take (length (setToolCalls w)) (setToolCalls w') = setToolCalls w
         \<and> isOpen w' = isOpen w)
      \<or> (setToolCalls w' = setToolCalls w \<and> isOpen w' \<noteq> isOpen w))"

text \<open>
  The times of the accepted key-downs of a run, oldest first: those whose intent was
  carried out.
\<close>

fun intentTimes :: "(string \<times> int) list \<Rightarrow> widget \<Rightarrow> int list" where
  "intentTimes [] w = []"
| "intentTimes ((key, now) # evs) w =
     (if intentIssued w (handleKeyDown False key now w) then [now] else [])
       @ intentTimes evs (handleKeyDown False key now w)"

section \<open>Basic facts\<close>

lemma setTool_simps:
  "tool (setTool v w) = Some v"
  "isOpen (setTool v w) = isOpen w"
  "lastKeyTime (setTool v w) = lastKeyTime w"
  "setToolCalls (setTool v w) = setToolCalls w @ [v]"
  by (simp_all add: setTool_def)

lemma setLastKeyTime_simps:
  "tool (setLastKeyTime t w) = tool w"
  "isOpen (setLastKeyTime t w) = isOpen w"
  "lastKeyTime (setLastKeyTime t w) = t"
  "setToolCalls (setLastKeyTime t w) = setToolCalls w"
  by (simp_all add: setLastKeyTime_def)

lemma toggleToolBox_simps:
  "tool (toggleToolBox w) = tool w"
  "isOpen (toggleToolBox w) = (\<not> isOpen w)"
  "lastKeyTime (toggleToolBox w) = lastKeyTime w"
  "setToolCalls (toggleToolBox w) = setToolCalls w"
  by (simp_all add: toggleToolBox_def)

lemma handleToolChange_simps:
  "tool (handleToolChange r w) = Some (if Some r = tool w then ''default'' else r)"
  "isOpen (handleToolChange r w) = isOpen w"
  "lastKeyTime (handleToolChange r w) = lastKeyTime w"
  "setToolCalls (handleToolChange r w) =
     setToolCalls w @ [if Some r = tool w then ''default'' else r]"
  by (simp_all add: handleToolChange_def setTool_simps)

lemma toLowerCase_letters:
  "toLowerCase ''i'' = ''i''" "toLowerCase ''I'' = ''i''"
  "toLowerCase ''h'' = ''h''" "toLowerCase ''H'' = ''h''"
  "toLowerCase ''p'' = ''p''" "toLowerCase ''P'' = ''p''"
  "toLowerCase ''e'' = ''e''" "toLowerCase ''E'' = ''e''"
  "toLowerCase ''t'' = ''t''" "toLowerCase ''T'' = ''t''"
  "toLowerCase ''l'' = ''l''" "toLowerCase ''L'' = ''l''"
  "toLowerCase ''x'' = ''x''" "toLowerCase ''Shift'' = ''shift''"
  by (simp_all add: toLowerCase_def toLowerCase_char_def)

lemma toLowerCase_char_eq_t:
  "toLowerCase_char c = CHR ''t'' \<longleftrightarrow> c = CHR ''t'' \<or> c = CHR ''T''"
  by (auto simp: toLowerCase_char_def split: if_splits)

lemma toLowerCase_eq_t: "toLowerCase key = ''t'' \<longleftrightarrow> key = ''t'' \<or> key = ''T''"
  by (cases key) (auto simp: toLowerCase_def toLowerCase_char_eq_t)

lemma handleKeyDown_suppressed:
  "d \<or> now - lastKeyTime w < 150 \<Longrightarrow> handleKeyDown d key now w = w"
  by (auto simp: handleKeyDown_def DEBOUNCE_DELAY_def)

lemma handleKeyDown_lastKeyTime:
  "\<not> d \<Longrightarrow> 150 \<le> now - lastKeyTime w \<Longrightarrow> lastKeyTime (handleKeyDown d key now w) = now"
  by (simp add: handleKeyDown_def DEBOUNCE_DELAY_def Let_def setTool_simps
      setLastKeyTime_simps toggleToolBox_simps handleToolChange_simps)

lemma handleKeyDown_space:
  "\<not> d \<Longrightarrow> 150 \<le> now - lastKeyTime w \<Longrightarrow> key = '' '' \<or> key = ''Space'' \<Longrightarrow>
   handleKeyDown d key now w = setTool ''hand'' (setLastKeyTime now w)"
  by (auto simp: handleKeyDown_def DEBOUNCE_DELAY_def)

lemma handleKeyDown_h:
  "\<not> d \<Longrightarrow> 150 \<le> now - lastKeyTime w \<Longrightarrow> key = ''h'' \<or> key = ''H'' \<Longrightarrow>
   handleKeyDown d key now w = handleToolChange ''hand'' (setLastKeyTime now w)"
  by (auto simp: handleKeyDown_def DEBOUNCE_DELAY_def toLowerCase_letters)

lemma handleKeyDown_i:
  "\<not> d \<Longrightarrow> 150 \<le> now - lastKeyTime w \<Longrightarrow> key = ''i'' \<or> key = ''I'' \<Longrightarrow>
   handleKeyDown d key now w = handleToolChange ''circle'' (setLastKeyTime now w)"
  by (auto simp: handleKeyDown_def DEBOUNCE_DELAY_def toLowerCase_letters)

lemma handleKeyDown_t:
  "\<not> d \<Longrightarrow> 150 \<le> now - lastKeyTime w \<Longrightarrow> key = ''t'' \<or> key = ''T'' \<Longrightarrow>
   handleKeyDown d key now w = toggleToolBox (setLastKeyTime now w)"
  by (auto simp: handleKeyDown_def DEBOUNCE_DELAY_def toLowerCase_letters)

lemma handleKeyDown_unbound:
  "\<not> d \<Longrightarrow> 150 \<le> now - lastKeyTime w \<Longrightarrow> \<not> isBoundKey key \<Longrightarrow>
   handleKeyDown d key now w = setLastKeyTime now w"
  by (simp add: handleKeyDown_def DEBOUNCE_DELAY_def isBoundKey_def Let_def)

lemma handleKeyUp_space:
  "key = '' '' \<or> key = ''Space'' \<Longrightarrow> handleKeyUp key w = setTool '''' w"
  by (simp add: handleKeyUp_def)

lemma handleKeyDown_isOpen:
  "isOpen (handleKeyDown d key now w) \<noteq> isOpen w \<Longrightarrow>
   \<not> d \<and> 150 \<le> now - lastKeyTime w \<and> (key = ''t'' \<or> key = ''T'')"
  by (auto simp: handleKeyDown_def DEBOUNCE_DELAY_def Let_def setTool_simps
      setLastKeyTime_simps handleToolChange_simps toLowerCase_eq_t split: if_splits)

lemma isBoundKey_examples:
  "\<not> isBoundKey ''x''" "\<not> isBoundKey ''Shift''" "isBoundKey ''I''" "isBoundKey '' ''"
  "isBoundKey ''p''" "isBoundKey ''e''" "isBoundKey ''l''"
  by (simp_all add: isBoundKey_def toLowerCase_letters)

lemma keyDowns_lastKeyTime:
  "lastKeyTime (keyDowns evs w) = last (lastKeyTime w # gateTimes evs w)"
proof (induction evs arbitrary: w)
  case Nil
  then show ?case by simp
next
  case (Cons ev evs)
  obtain key now where ev: "ev = (key, now)" by (cases ev)
  show ?case
  proof (cases "150 \<le> now - lastKeyTime w")
    case True
    then show ?thesis
      using Cons.IH [of "handleKeyDown False key now w"]
      by (simp add: ev passesGate_def DEBOUNCE_DELAY_def handleKeyDown_lastKeyTime)
  next
    case False
    then show ?thesis
      using Cons.IH [of w]
      by (simp add: ev passesGate_def DEBOUNCE_DELAY_def handleKeyDown_suppressed)
  qed
qed

lemma intentIssued_same: "\<not> intentIssued w w"
  by (simp add: intentIssued_def)

lemma intentIssued_clock: "\<not> intentIssued w (setLastKeyTime t w)"
  by (simp add: intentIssued_def setLastKeyTime_simps)

lemma intentIssued_setTool: "intentIssued w (setTool v (setLastKeyTime t w))"
  by (simp add: intentIssued_def setTool_simps setLastKeyTime_simps)

lemma intentIssued_handleToolChange: "intentIssued w (handleToolChange r (setLastKeyTime t w))"
  by (simp add: intentIssued_def handleToolChange_simps setLastKeyTime_simps)

lemma intentIssued_toggleToolBox: "intentIssued w (toggleToolBox (setLastKeyTime t w))"
  by (simp add: intentIssued_def toggleToolBox_simps setLastKeyTime_simps)

lemma handleKeyDown_intent_bound:
  assumes "isBoundKey key"
  shows "intentIssued w (handleKeyDown False key now w) \<longleftrightarrow> 150 \<le> now - lastKeyTime w"
proof (cases "150 \<le> now - lastKeyTime w")
  case True
  with assms show ?thesis
    by (auto simp: handleKeyDown_def DEBOUNCE_DELAY_def Let_def isBoundKey_def
        intentIssued_setTool intentIssued_handleToolChange intentIssued_toggleToolBox)
next
  case False
  then show ?thesis by (simp add: handleKeyDown_suppressed intentIssued_same)
qed

lemma handleKeyDown_intent_unbound:
  assumes "\<not> isBoundKey key"
  shows "\<not> intentIssued w (handleKeyDown False key now w)"
proof (cases "150 \<le> now - lastKeyTime w")
  case True
  with assms show ?thesis by (simp add: handleKeyDown_unbound intentIssued_clock)
next
  case False
  then show ?thesis by (simp add: handleKeyDown_suppressed intentIssued_same)
qed

lemma gateTimes_bound:
  "(\<forall>(k, t) \<in> set evs. isBoundKey k) \<Longrightarrow> gateTimes evs w = intentTimes evs w"
proof (induction evs arbitrary: w)
  case Nil
  then show ?case by simp
next
  case (Cons ev evs)
  obtain key now where ev: "ev = (key, now)" by (cases ev)
  from Cons.prems have k: "isBoundKey key" and r: "\<forall>(k, t) \<in> set evs. isBoundKey k"
    by (auto simp: ev)
  show ?case
    using Cons.IH [OF r, of "handleKeyDown False key now w"]
    by (simp add: ev handleKeyDown_intent_bound [OF k] passesGate_def DEBOUNCE_DELAY_def
        not_less)
qed

section \<open>The toggle rule\<close>

text \<open>
  C2. Toggle-to-deselect: selecting the tool that is already current yields
  \<open>'default'\<close> (the tool the spec calls none), selecting any other tool yields that
  tool, also when no tool is set (\<open>null\<close>); in particular from \<open>'default'\<close> every other
  tool is selected as requested. The callback is invoked once, with that result, and
  a click on a tool button goes through the same rule.
\<close>

theorem toggle_to_deselect:
  "(tool w = Some r \<longrightarrow> tool (handleToolChange r w) = Some ''default'')
   \<and> (tool w \<noteq> Some r \<longrightarrow> tool (handleToolChange r w) = Some r)
   \<and> (tool w = Some ''default'' \<and> r \<noteq> ''default'' \<longrightarrow> tool (handleToolChange r w) = Some r)
   \<and> setToolCalls (handleToolChange r w)
       = setToolCalls w @ [if tool w = Some r then ''default'' else r]
   \<and> handleClick r w = handleToolChange r w"
  by (auto simp: handleToolChange_simps handleClick_def)

text \<open>C2, at the tools pen, default and eraser.\<close>

theorem toggle_to_deselect_witness:
  "tool (handleToolChange ''pen'' (mount (Some ''pen''))) = Some ''default''
   \<and> tool (handleToolChange ''pen'' (mount (Some ''default''))) = Some ''pen''
   \<and> tool (handleToolChange ''pen'' (mount (Some ''eraser''))) = Some ''pen''"
  using toggle_to_deselect [of "mount (Some ''pen'')" "''pen''"]
    toggle_to_deselect [of "mount (Some ''default'')" "''pen''"]
    toggle_to_deselect [of "mount (Some ''eraser'')" "''pen''"]
  by (simp add: mount_def)

section \<open>The debounce gate\<close>

text \<open>
  C4, as the spec states it, fails. In the run p at 1000 ms, Shift at 1200 ms only the
  key-down of p is accepted (the pen is selected; Shift has no binding and carries out
  nothing). The key-down of the mapped letter e at 1300 ms comes 300 ms after that
  accepted key-down, and yet it is dropped: the state is left as it was and the callback
  has been called for the pen only.
\<close>

theorem debounce_counterexample:
  "intentTimes [(''p'', 1000), (''Shift'', 1200)] (mount None) = [1000]
   \<and> (150::int) \<le> 1300 - last (intentTimes [(''p'', 1000), (''Shift'', 1200)] (mount None))
   \<and> handleKeyDown False ''e'' 1300 (keyDowns [(''p'', 1000), (''Shift'', 1200)] (mount None))
       = keyDowns [(''p'', 1000), (''Shift'', 1200)] (mount None)
   \<and> setToolCalls
        (handleKeyDown False ''e'' 1300 (keyDowns [(''p'', 1000), (''Shift'', 1200)] (mount None)))
       = [''pen'']"
proof -
  have p: "handleKeyDown False ''p'' 1000 (mount None)
      = \<lparr>tool = Some ''pen'', isOpen = False, lastKeyTime = 1000, setToolCalls = [''pen'']\<rparr>"
    by (simp add: handleKeyDown_def DEBOUNCE_DELAY_def Let_def toLowerCase_letters
        handleToolChange_def setTool_def setLastKeyTime_def mount_def)
  have s: "handleKeyDown False ''Shift'' 1200
        \<lparr>tool = Some ''pen'', isOpen = False, lastKeyTime = 1000, setToolCalls = [''pen'']\<rparr>
      = \<lparr>tool = Some ''pen'', isOpen = False, lastKeyTime = 1200, setToolCalls = [''pen'']\<rparr>"
    by (simp add: handleKeyDown_unbound isBoundKey_examples setLastKeyTime_def)
  have e: "handleKeyDown False ''e'' 1300
        \<lparr>tool = Some ''pen'', isOpen = False, lastKeyTime = 1200, setToolCalls = [''pen'']\<rparr>
      = \<lparr>tool = Some ''pen'', isOpen = False, lastKeyTime = 1200, setToolCalls = [''pen'']\<rparr>"
    by (simp add: handleKeyDown_suppressed)
  show ?thesis
    by (simp add: p s e) (simp add: intentIssued_def mount_def)
qed

text \<open>
  C4, amended. After any run of key-downs, a key-down of the space key or of a mapped
  letter is accepted (its intent is carried out: the callback is called once, or the
  panel flag flips) if and only if its time is at least 150 ms after the latest
  key-down of the run that passed the debounce test (the initial clock, when none did),
  not after the latest raw one. A key-down of a key without a binding carries out
  nothing, but it passes the test all the same and then restarts the window. A key-down
  that arrives earlier leaves the state exactly as it was, whatever its key: the one
  clock is shared by all keys. In a run of bound keys only, the key-downs that passed the
  test are exactly the accepted ones.
\<close>

theorem debounce_from_last_gate_pass:
  "(isBoundKey key \<longrightarrow>
      (intentIssued (keyDowns evs w) (handleKeyDown False key now (keyDowns evs w))
         \<longleftrightarrow> 150 \<le> now - last (lastKeyTime w # gateTimes evs w)))
   \<and> (\<not> isBoundKey key \<longrightarrow>
        \<not> intentIssued (keyDowns evs w) (handleKeyDown False key now (keyDowns evs w)))
   \<and> (150 \<le> now - last (lastKeyTime w # gateTimes evs w) \<longrightarrow>
        lastKeyTime (handleKeyDown False key now (keyDowns evs w)) = now)
   \<and> (now - last (lastKeyTime w # gateTimes evs w) < 150 \<longrightarrow>
        handleKeyDown False key now (keyDowns evs w) = keyDowns evs w)
   \<and> ((\<forall>(k, t) \<in> set evs. isBoundKey k) \<longrightarrow> gateTimes evs w = intentTimes evs w)"
  using handleKeyDown_intent_bound [of key "keyDowns evs w" now]
    handleKeyDown_intent_unbound [of key "keyDowns evs w" now]
    handleKeyDown_suppressed [of False now "keyDowns evs w" key]
    handleKeyDown_lastKeyTime [of False now "keyDowns evs w" key]
    gateTimes_bound [of evs w]
  by (simp add: keyDowns_lastKeyTime)

text \<open>
  C4, amended, on the run p at 1000 ms and e at 1050 ms, both mapped: only the first is
  accepted; the mapped letter l is accepted at 1160 ms, 110 ms after the latest raw
  key-down, and dropped at 1100 ms; Shift at 1160 ms carries out nothing.
\<close>

theorem debounce_from_last_gate_pass_witness:
  "isBoundKey ''l'' \<and> isBoundKey ''p'' \<and> isBoundKey ''e'' \<and> \<not> isBoundKey ''Shift''
   \<and> intentTimes [(''p'', 1000), (''e'', 1050)] (mount None) = [1000]
   \<and> intentIssued (keyDowns [(''p'', 1000), (''e'', 1050)] (mount None))
        (handleKeyDown False ''l'' 1160 (keyDowns [(''p'', 1000), (''e'', 1050)] (mount None)))
   \<and> \<not> intentIssued (keyDowns [(''p'', 1000), (''e'', 1050)] (mount None))
        (handleKeyDown False ''Shift'' 1160
           (keyDowns [(''p'', 1000), (''e'', 1050)] (mount None)))
   \<and> handleKeyDown False ''l'' 1100 (keyDowns [(''p'', 1000), (''e'', 1050)] (mount None))
       = keyDowns [(''p'', 1000), (''e'', 1050)] (mount None)"
proof -
  have b: "isBoundKey ''l''" "isBoundKey ''p''" "isBoundKey ''e''" "\<not> isBoundKey ''Shift''"
    by (simp_all add: isBoundKey_examples)
  have g: "gateTimes [(''p'', 1000), (''e'', 1050)] (mount None) = [1000]"
    by (simp add: passesGate_def DEBOUNCE_DELAY_def handleKeyDown_lastKeyTime mount_def)
  show ?thesis
    using b g
      debounce_from_last_gate_pass
      [of "''l''" "[(''p'', 1000), (''e'', 1050)]" "mount None" 1160]
      debounce_from_last_gate_pass
      [of "''Shift''" "[(''p'', 1000), (''e'', 1050)]" "mount None" 1160]
      debounce_from_last_gate_pass
      [of "''l''" "[(''p'', 1000), (''e'', 1050)]" "mount None" 1100]
    by (simp add: mount_def)
qed




section \<open>The space key\<close>

text \<open>
  C1, as the spec states it, fails: with the pen selected, an accepted space key-down
  does highlight the hand, but the one tool value is no longer the pen, and the space
  key-up that follows leaves the empty string there, not the pen.
\<close>

theorem override_counterexample:
  "tool (mount (Some ''pen'')) = Some ''pen''
   \<and> highlighted ''hand'' (handleKeyDown False '' '' 1000 (mount (Some ''pen'')))
   \<and> tool (handleKeyDown False '' '' 1000 (mount (Some ''pen''))) \<noteq> Some ''pen''
   \<and> tool (handleKeyUp '' '' (handleKeyDown False '' '' 1000 (mount (Some ''pen''))))
       \<noteq> Some ''pen''"
  by (simp add: handleKeyDown_space handleKeyUp_space setTool_simps mount_def highlighted_def)

text \<open>
  C1, amended. For every tool T, an accepted space key-down makes the displayed tool
  the hand by calling the tool-change callback with \<open>'hand'\<close>, which replaces T in the
  one tool value there is; the space key-up that follows calls the callback with the
  empty string, so the tool is then the empty sentinel whatever T was.
\<close>

theorem override_overwrites_tool:
  assumes "key = '' '' \<or> key = ''Space''" and "key' = '' '' \<or> key' = ''Space''"
    and "150 \<le> now - lastKeyTime w"
  shows "highlighted ''hand'' (handleKeyDown False key now w)
    \<and> tool (handleKeyDown False key now w) = Some ''hand''
    \<and> setToolCalls (handleKeyDown False key now w) = setToolCalls w @ [''hand'']
    \<and> tool (handleKeyUp key' (handleKeyDown False key now w)) = Some ''''
    \<and> setToolCalls (handleKeyUp key' (handleKeyDown False key now w))
        = setToolCalls w @ [''hand'', '''']"
  using assms
  by (simp add: handleKeyDown_space handleKeyUp_space setTool_simps setLastKeyTime_simps
      highlighted_def)

text \<open>C1, amended, with the pen selected and space pressed 1000 ms after mounting.\<close>

theorem override_overwrites_tool_witness:
  "tool (handleKeyDown False '' '' 1000 (mount (Some ''pen''))) = Some ''hand''
   \<and> tool (handleKeyUp '' '' (handleKeyDown False '' '' 1000 (mount (Some ''pen''))))
       = Some ''''
   \<and> setToolCalls (handleKeyUp '' '' (handleKeyDown False '' '' 1000 (mount (Some ''pen''))))
       = [''hand'', '''']"
  using override_overwrites_tool [of "'' ''" "'' ''" 1000 "mount (Some ''pen'')"]
  by (simp add: mount_def)

text \<open>
  C6, as the spec states it, fails: right after mounting with the pen selected (no
  key-down has happened, the callback has not been called), a space key-up calls the
  callback with the empty string and the tool is no longer the pen.
\<close>

theorem keyUp_never_held_counterexample:
  "setToolCalls (mount (Some ''pen'')) = []
   \<and> setToolCalls (handleKeyUp '' '' (mount (Some ''pen''))) = ['''']
   \<and> tool (handleKeyUp '' '' (mount (Some ''pen''))) \<noteq> tool (mount (Some ''pen''))"
  by (simp add: handleKeyUp_space setTool_simps mount_def)

text \<open>
  C6, amended. A space key-up never faults, in any state, whether or not a space
  key-down was accepted before: it calls the tool-change callback once, with the empty
  string, which becomes the tool, and it leaves the panel flag and the debounce clock
  unchanged. The key-up of any other key changes nothing.
\<close>

theorem keyUp_always_calls_setTool:
  "(key = '' '' \<or> key = ''Space'' \<longrightarrow>
      handleKeyUp key w = w\<lparr>tool := Some '''', setToolCalls := setToolCalls w @ ['''']\<rparr>)
   \<and> (\<not> (key = '' '' \<or> key = ''Space'') \<longrightarrow> handleKeyUp key w = w)
   \<and> isOpen (handleKeyUp key w) = isOpen w
   \<and> lastKeyTime (handleKeyUp key w) = lastKeyTime w"
  by (simp add: handleKeyUp_def setTool_def)

text \<open>C6, amended, at the keys Space and p right after mounting.\<close>

theorem keyUp_always_calls_setTool_witness:
  "handleKeyUp ''Space'' (mount None)
     = \<lparr>tool = Some '''', isOpen = False, lastKeyTime = 0, setToolCalls = ['''']\<rparr>
   \<and> handleKeyUp ''p'' (mount None) = mount None"
  using keyUp_always_calls_setTool [of "''Space''" "mount None"]
    keyUp_always_calls_setTool [of "''p''" "mount None"]
  by (simp add: mount_def)

text \<open>
  C7. Key-up is never debounced: whatever the debounce clock holds, a space key-up
  clears the forced tool (it calls the callback with the empty sentinel, which becomes
  the tool); in particular it does so right after a key-down that the debounce gate
  dropped.
\<close>

theorem keyUp_not_debounced:
  assumes "key = '' '' \<or> key = ''Space''"
  shows "tool (handleKeyUp key (w\<lparr>lastKeyTime := t\<rparr>)) = Some ''''
    \<and> setToolCalls (handleKeyUp key (w\<lparr>lastKeyTime := t\<rparr>)) = setToolCalls w @ ['''']
    \<and> (now - lastKeyTime w < 150 \<longrightarrow>
         handleKeyDown False key' now w = w
         \<and> tool (handleKeyUp key (handleKeyDown False key' now w)) = Some ''''
         \<and> setToolCalls (handleKeyUp key (handleKeyDown False key' now w))
             = setToolCalls w @ [''''])"
  using assms
  by (simp add: handleKeyUp_space handleKeyDown_suppressed setTool_simps)

text \<open>
  C7, with space accepted at 1000 ms, a second space key-down dropped at 1050 ms, and
  the key-up right after it.
\<close>

theorem keyUp_not_debounced_witness:
  "tool (handleKeyUp '' '' (handleKeyDown False '' '' 1050
           (handleKeyDown False '' '' 1000 (mount (Some ''pen''))))) = Some ''''
   \<and> handleKeyDown False '' '' 1050 (handleKeyDown False '' '' 1000 (mount (Some ''pen'')))
       = handleKeyDown False '' '' 1000 (mount (Some ''pen''))"
proof -
  have l: "lastKeyTime (handleKeyDown False '' '' 1000 (mount (Some ''pen''))) = 1000"
    by (simp add: handleKeyDown_lastKeyTime mount_def)
  show ?thesis
    using keyUp_not_debounced [where key = "'' ''" and key' = "'' ''" and now = 1050
        and w = "handleKeyDown False '' '' 1000 (mount (Some ''pen''))" and t = 1000]
    by (simp add: l handleKeyUp_space setTool_simps)
qed

text \<open>
  C9. The space key-down does not go through the toggle rule: once accepted, it sets
  the tool to the hand whatever the tool was, so the hand stays the hand, whereas an
  accepted key-down of h in a state where the hand is selected reverts the tool to
  \<open>'default'\<close> (and selects the hand in every other state).
\<close>

theorem space_bypasses_toggle:
  assumes "150 \<le> now - lastKeyTime w"
    and "key = '' '' \<or> key = ''Space''" and "hkey = ''h'' \<or> hkey = ''H''"
  shows "tool (handleKeyDown False key now w) = Some ''hand''
    \<and> setToolCalls (handleKeyDown False key now w) = setToolCalls w @ [''hand'']
    \<and> (tool w = Some ''hand'' \<longrightarrow>
         tool (handleKeyDown False key now w) = tool w
         \<and> tool (handleKeyDown False hkey now w) = Some ''default'')
    \<and> (tool w \<noteq> Some ''hand'' \<longrightarrow> tool (handleKeyDown False hkey now w) = Some ''hand'')"
  using assms
  by (simp add: handleKeyDown_space handleKeyDown_h setTool_simps setLastKeyTime_simps
      handleToolChange_simps)

text \<open>C9, with the hand selected: space keeps the hand, h deselects it.\<close>

theorem space_bypasses_toggle_witness:
  "tool (handleKeyDown False '' '' 1000 (mount (Some ''hand''))) = Some ''hand''
   \<and> tool (handleKeyDown False ''h'' 1000 (mount (Some ''hand''))) = Some ''default''"
  using space_bypasses_toggle [of 1000 "mount (Some ''hand'')" "'' ''" "''h''"]
  by (simp add: mount_def)

section \<open>Disabled shortcuts\<close>

text \<open>
  C3. With shortcuts disabled every keyboard event should be a no-op. The key-down
  listener returns at once, but the key-up listener has no such guard: with the text
  tool selected and shortcuts disabled, a space key-up calls the callback with the
  empty string and the text tool is lost, while the space key-down in the same state
  changes nothing.
\<close>

theorem disabled_keyUp_still_clears:
  "dispatch True (KeyUp '' '') (mount (Some ''text''))
     = \<lparr>tool = Some '''', isOpen = False, lastKeyTime = 0, setToolCalls = ['''']\<rparr>
   \<and> dispatch True (KeyUp '' '') (mount (Some ''text'')) \<noteq> mount (Some ''text'')
   \<and> dispatch True (KeyDown '' '' 1000) (mount (Some ''text'')) = mount (Some ''text'')"
  by (simp add: handleKeyUp_def handleKeyDown_def setTool_def mount_def)

section \<open>The key i\<close>

text \<open>
  C5. The key i should select the triangle. With \<open>'default'\<close> selected, an accepted
  key-down of i sets the tool to \<open>'circle'\<close>, a name no button of the tool box carries:
  the triangle button is not highlighted after it, as it is after a click on that
  button, which selects \<open>'triangle'\<close>.
\<close>

theorem key_i_selects_circle:
  "tool (handleKeyDown False ''i'' 1000 (mount (Some ''default''))) = Some ''circle''
   \<and> \<not> highlighted ''triangle'' (handleKeyDown False ''i'' 1000 (mount (Some ''default'')))
   \<and> tool (handleClick ''triangle'' (mount (Some ''default''))) = Some ''triangle''
   \<and> highlighted ''triangle'' (handleClick ''triangle'' (mount (Some ''default'')))"
  by (simp add: handleKeyDown_i handleToolChange_simps setLastKeyTime_simps handleClick_def
      highlighted_def mount_def)

section \<open>The panel flag\<close>

text \<open>
  C10. The panel flag is false on mount. An event changes it only if it is a click on
  the disclosure button or a key-down of t (or T) that is accepted (shortcuts enabled,
  debounce passed), and each of these negates it. Every tool selection, by click or
  through the toggle rule, and every space key-down and key-up leave it unchanged.
\<close>

theorem panel_flag_frame:
  "\<not> isOpen (mount t)
   \<and> (isOpen (dispatch d ev w) \<noteq> isOpen w \<longrightarrow>
        ev = ClickToggle
        \<or> (\<exists>key now. ev = KeyDown key now \<and> (key = ''t'' \<or> key = ''T'')
              \<and> \<not> d \<and> 150 \<le> now - lastKeyTime w))
   \<and> isOpen (dispatch d ClickToggle w) = (\<not> isOpen w)
   \<and> (150 \<le> now - lastKeyTime w \<and> (key = ''t'' \<or> key = ''T'') \<longrightarrow>
        isOpen (dispatch False (KeyDown key now) w) = (\<not> isOpen w))
   \<and> isOpen (handleToolChange r w) = isOpen w
   \<and> isOpen (dispatch d (ClickTool r) w) = isOpen w
   \<and> (skey = '' '' \<or> skey = ''Space'' \<longrightarrow>
        isOpen (dispatch d (KeyDown skey now) w) = isOpen w
        \<and> isOpen (dispatch d (KeyUp skey) w) = isOpen w)"
proof -
  have a: "isOpen (dispatch d ev w) \<noteq> isOpen w \<longrightarrow>
        ev = ClickToggle
        \<or> (\<exists>key now. ev = KeyDown key now \<and> (key = ''t'' \<or> key = ''T'')
              \<and> \<not> d \<and> 150 \<le> now - lastKeyTime w)"
  proof (cases ev)
    case (KeyDown key now)
    then show ?thesis using handleKeyDown_isOpen [of d key now w] by auto
  next
    case (KeyUp key)
    then show ?thesis by (simp add: handleKeyUp_def setTool_simps)
  next
    case (ClickTool name)
    then show ?thesis by (simp add: handleClick_def handleToolChange_simps)
  next
    case ClickToggle
    then show ?thesis by simp
  qed
  have b: "150 \<le> now - lastKeyTime w \<and> (key = ''t'' \<or> key = ''T'') \<longrightarrow>
        isOpen (dispatch False (KeyDown key now) w) = (\<not> isOpen w)"
    by (auto simp: handleKeyDown_t toggleToolBox_simps setLastKeyTime_simps)
  have c: "skey = '' '' \<or> skey = ''Space'' \<longrightarrow>
        isOpen (dispatch d (KeyDown skey now) w) = isOpen w
        \<and> isOpen (dispatch d (KeyUp skey) w) = isOpen w"
    using handleKeyDown_isOpen [of d skey now w]
    by (auto simp: handleKeyUp_def setTool_simps)
  show ?thesis
    using a b c
    by (simp add: mount_def toggleToolBox_simps handleToolChange_simps handleClick_def)
qed

text \<open>
  C10, right after mounting: the disclosure button and the key T open the panel, the
  space key does not.
\<close>

theorem panel_flag_frame_witness:
  "isOpen (dispatch False ClickToggle (mount None)) \<noteq> isOpen (mount None)
   \<and> isOpen (dispatch False (KeyDown ''T'' 1000) (mount None))
   \<and> \<not> isOpen (dispatch False (KeyDown '' '' 1000) (mount None))
   \<and> \<not> isOpen (dispatch False (KeyUp '' '') (mount None))"
  using panel_flag_frame [of None False ClickToggle "mount None" 1000 "''T''" "''pen''" "'' ''"]
  by (simp add: mount_def toggleToolBox_def)

end
